theory Spec2Isabelle
  imports Main
begin

section \<open>JavaScript values\<close>

text \<open>
  The controller \<^verbatim>\<open>backend/controllers/authController.js\<close> works on untyped request
  bodies and on documents of the user store. Both are JavaScript values. Numbers are
  integers here: the controller only tests them for truthiness and copies them.
\<close>

datatype jsval =
    JUndefined
  | JNull
  | JBool bool
  | JNum int
  | JStr string
  | JObj "(string \<times> jsval) list"

text \<open>JavaScript's ToBoolean, as used by \<^verbatim>\<open>!x\<close> and \<^verbatim>\<open>x && y\<close>.\<close>

fun truthy :: "jsval \<Rightarrow> bool" where
  "truthy JUndefined = False"
| "truthy JNull = False"
| "truthy (JBool b) = b"
| "truthy (JNum n) = (n \<noteq> 0)"
| "truthy (JStr s) = (s \<noteq> [])"
| "truthy (JObj kvs) = True"

text \<open>Reading a property of an object: a missing key reads as \<^verbatim>\<open>undefined\<close>.\<close>

definition field :: "(string \<times> jsval) list \<Rightarrow> string \<Rightarrow> jsval" where
  "field kvs k = (case map_of kvs k of None \<Rightarrow> JUndefined | Some v \<Rightarrow> v)"

fun get_prop :: "jsval \<Rightarrow> string \<Rightarrow> jsval" where
  "get_prop (JObj kvs) k = field kvs k"
| "get_prop v k = JUndefined"

fun keys :: "jsval \<Rightarrow> string list" where
  "keys (JObj kvs) = map fst kvs"
| "keys v = []"

section \<open>Documents, errors and collaborators\<close>

text \<open>
  A document of the user collection, with the hidden password path selected or not
  (then \<open>password\<close> is \<^verbatim>\<open>undefined\<close>). \<open>doc_id\<close> is the document's \<^verbatim>\<open>_id\<close>.
\<close>

record user_doc =
  doc_id :: jsval
  name :: jsval
  email :: jsval
  password :: jsval
  phone :: jsval
  age :: jsval
  gender :: jsval
  role :: jsval
  createdAt :: jsval

text \<open>
  What a handler passes to \<^verbatim>\<open>next\<close>: an \<^verbatim>\<open>AppError\<close> with its message and status
  code, the \<^verbatim>\<open>TypeError\<close> of reading a property of \<^verbatim>\<open>null\<close>, or an exception thrown
  by a collaborator and caught by the handler's \<^verbatim>\<open>catch\<close>.
\<close>

datatype err =
    AppError string nat
  | TypeError string
  | Thrown string

text \<open>
  The modules the controller requires are not part of the source at hand:
  \<^verbatim>\<open>../models/User\<close>, \<^verbatim>\<open>../config/jwt\<close> and the \<^verbatim>\<open>jsonwebtoken\<close> library. They are
  parameters of the model. \<open>'s\<close> is the state of the store. A lookup reads the store;
  \<open>save\<close> and \<open>create\<close> return the new store; every call may throw (\<open>Inl\<close>).
  \<open>findOne\<close> is \<^verbatim>\<open>User.findOne({ email }).select('+password')\<close>.
\<close>

record 's collab =
  findOne :: "'s \<Rightarrow> jsval \<Rightarrow> err + user_doc option"
  comparePassword :: "user_doc \<Rightarrow> jsval \<Rightarrow> err + bool"
  save :: "'s \<Rightarrow> user_doc \<Rightarrow> err + 's"
  create :: "'s \<Rightarrow> jsval \<Rightarrow> err + user_doc \<times> 's"
  findById :: "'s \<Rightarrow> jsval \<Rightarrow> err + user_doc option"
  sign :: "jsval \<Rightarrow> jsval \<Rightarrow> jsval \<Rightarrow> err + jsval"
  jwt_secret :: jsval
  jwt_expiresIn :: jsval

text \<open>The calls a handler makes to its collaborators, in order, with their arguments.\<close>

datatype call =
    FindOne jsval
  | ComparePassword user_doc jsval
  | Save user_doc
  | Create jsval
  | FindById jsval
  | Sign jsval jsval jsval

text \<open>
  A handler either answers (\<^verbatim>\<open>res.status(n).json(body)\<close>) or forwards an error
  (\<^verbatim>\<open>next(error)\<close>). Its result is that outcome, the store afterwards and the calls made.
\<close>

datatype outcome =
    Respond nat jsval
  | Next err

type_synonym 's result = "outcome \<times> 's \<times> call list"

section \<open>The controller\<close>

text \<open>\<^verbatim>\<open>generateToken\<close>: signs \<^verbatim>\<open>{ id }\<close> with the configured secret and expiry.\<close>

definition token_payload :: "jsval \<Rightarrow> jsval" where
  "token_payload i = JObj [(''id'', i)]"

definition token_options :: "'s collab \<Rightarrow> jsval" where
  "token_options C = JObj [(''expiresIn'', jwt_expiresIn C)]"

definition generateToken :: "'s collab \<Rightarrow> jsval \<Rightarrow> err + jsval" where
  "generateToken C i = sign C (token_payload i) (jwt_secret C) (token_options C)"

definition generateToken_call :: "'s collab \<Rightarrow> jsval \<Rightarrow> call" where
  "generateToken_call C i = Sign (token_payload i) (jwt_secret C) (token_options C)"

text \<open>The user object of the register and login responses.\<close>

definition user_view :: "user_doc \<Rightarrow> jsval" where
  "user_view u = JObj
     [(''id'', doc_id u), (''name'', name u), (''email'', email u),
      (''role'', role u), (''phone'', phone u)]"

text \<open>The user object of the \<^verbatim>\<open>getMe\<close> response.\<close>

definition profile_view :: "user_doc \<Rightarrow> jsval" where
  "profile_view u = JObj
     [(''id'', doc_id u), (''name'', name u), (''email'', email u),
      (''role'', role u), (''createdAt'', createdAt u)]"

definition auth_body :: "string \<Rightarrow> user_doc \<Rightarrow> jsval \<Rightarrow> jsval" where
  "auth_body msg u token = JObj
     [(''success'', JBool True), (''message'', JStr msg),
      (''data'', JObj [(''user'', user_view u), (''token'', token)])]"

text \<open>
  The three \<^verbatim>\<open>if\<close> statements of \<^verbatim>\<open>register\<close> that fill in contact fields of the
  existing document; the flag is \<^verbatim>\<open>profileUpdated\<close>.
\<close>

definition backfill :: "user_doc \<Rightarrow> jsval \<Rightarrow> jsval \<Rightarrow> jsval \<Rightarrow> user_doc \<times> bool" where
  "backfill existingUser phone' age' gender' =
     (let (u1, p1) = (if truthy phone' \<and> \<not> truthy (phone existingUser)
                      then (existingUser\<lparr>phone := phone'\<rparr>, True) else (existingUser, False));
          (u2, p2) = (if truthy age' \<and> \<not> truthy (age u1)
                      then (u1\<lparr>age := age'\<rparr>, True) else (u1, p1));
          (u3, p3) = (if truthy gender' \<and> \<not> truthy (gender u2)
                      then (u2\<lparr>gender := gender'\<rparr>, True) else (u2, p2))
      in (u3, p3))"

text \<open>The object given to \<^verbatim>\<open>User.create\<close>.\<close>

definition create_fields :: "(string \<times> jsval) list \<Rightarrow> jsval" where
  "create_fields body = JObj
     [(''name'', field body ''name''), (''email'', field body ''email''),
      (''password'', field body ''password''), (''phone'', field body ''phone''),
      (''age'', field body ''age''), (''gender'', field body ''gender'')]"

text \<open>The part of \<^verbatim>\<open>register\<close> after the password of an existing user has matched.\<close>

definition register_recognized :: "'s collab \<Rightarrow> 's \<Rightarrow> (string \<times> jsval) list \<Rightarrow> user_doc \<Rightarrow> call list \<Rightarrow> 's result" where
  "register_recognized C s body existingUser cs =
     (let (u, profileUpdated) =
            backfill existingUser (field body ''phone'') (field body ''age'') (field body ''gender'')
      in case (if profileUpdated then save C s u else Inr s) of
           Inl e \<Rightarrow> (Next e, s, cs @ [Save u])
         | Inr s' \<Rightarrow>
             (let cs' = cs @ (if profileUpdated then [Save u] else []) in
              case generateToken C (doc_id u) of
                Inl e \<Rightarrow> (Next e, s', cs' @ [generateToken_call C (doc_id u)])
              | Inr token \<Rightarrow>
                  (Respond 200
                     (auth_body ''Existing patient recognized. Logged in successfully.'' u token),
                   s', cs' @ [generateToken_call C (doc_id u)])))"

text \<open>The part of \<^verbatim>\<open>register\<close> for an email with no user: \<^verbatim>\<open>User.create\<close>, then the token.\<close>

definition register_new :: "'s collab \<Rightarrow> 's \<Rightarrow> (string \<times> jsval) list \<Rightarrow> call list \<Rightarrow> 's result" where
  "register_new C s body cs =
     (case create C s (create_fields body) of
        Inl e \<Rightarrow> (Next e, s, cs @ [Create (create_fields body)])
      | Inr (user, s') \<Rightarrow>
          (let cs' = cs @ [Create (create_fields body), generateToken_call C (doc_id user)] in
           case generateToken C (doc_id user) of
             Inl e \<Rightarrow> (Next e, s', cs')
           | Inr token \<Rightarrow>
               (Respond 201 (auth_body ''User registered successfully'' user token), s', cs')))"

definition register :: "'s collab \<Rightarrow> 's \<Rightarrow> (string \<times> jsval) list \<Rightarrow> 's result" where
  "register C s body =
     (let email' = field body ''email''; password' = field body ''password'' in
      case findOne C s email' of
        Inl e \<Rightarrow> (Next e, s, [FindOne email'])
      | Inr (Some existingUser) \<Rightarrow>
          if \<not> truthy password' then
            (Next (AppError ''Account already exists with this email. Please login.'' 400),
             s, [FindOne email'])
          else
            (case comparePassword C existingUser password' of
               Inl e \<Rightarrow> (Next e, s, [FindOne email', ComparePassword existingUser password'])
             | Inr isSamePassword \<Rightarrow>
                 if \<not> isSamePassword then
                   (Next (AppError
                      ''Account already exists with this email. Please login with your original password.''
                      400),
                    s, [FindOne email', ComparePassword existingUser password'])
                 else register_recognized C s body existingUser
                        [FindOne email', ComparePassword existingUser password'])
      | Inr None \<Rightarrow> register_new C s body [FindOne email'])"

definition login :: "'s collab \<Rightarrow> 's \<Rightarrow> (string \<times> jsval) list \<Rightarrow> 's result" where
  "login C s body =
     (let email' = field body ''email''; password' = field body ''password'' in
      if \<not> truthy email' \<or> \<not> truthy password' then
        (Next (AppError ''Please provide email and password'' 400), s, [])
      else
        case findOne C s email' of
          Inl e \<Rightarrow> (Next e, s, [FindOne email'])
        | Inr None \<Rightarrow> (Next (AppError ''Invalid credentials'' 401), s, [FindOne email'])
        | Inr (Some user) \<Rightarrow>
            (case comparePassword C user password' of
               Inl e \<Rightarrow> (Next e, s, [FindOne email', ComparePassword user password'])
             | Inr ok \<Rightarrow>
                 if \<not> ok then
                   (Next (AppError ''Invalid credentials'' 401), s,
                    [FindOne email', ComparePassword user password'])
                 else
                   (let cs = [FindOne email', ComparePassword user password',
                              generateToken_call C (doc_id user)] in
                    case generateToken C (doc_id user) of
                      Inl e \<Rightarrow> (Next e, s, cs)
                    | Inr token \<Rightarrow>
                        (Respond 200 (auth_body ''Login successful'' user token), s, cs))))"

text \<open>
  \<^verbatim>\<open>getMe\<close>, given \<^verbatim>\<open>req.user.id\<close>. When \<^verbatim>\<open>User.findById\<close> resolves to \<^verbatim>\<open>null\<close>,
  building the response reads \<^verbatim>\<open>user._id\<close> of \<^verbatim>\<open>null\<close>: a \<^verbatim>\<open>TypeError\<close>, caught by the
  handler's \<^verbatim>\<open>catch\<close> and passed to \<^verbatim>\<open>next\<close>.
\<close>

definition getMe :: "'s collab \<Rightarrow> 's \<Rightarrow> jsval \<Rightarrow> 's result" where
  "getMe C s uid =
     (case findById C s uid of
        Inl e \<Rightarrow> (Next e, s, [FindById uid])
      | Inr None \<Rightarrow>
          (Next (TypeError ''Cannot read properties of null (reading _id)''), s, [FindById uid])
      | Inr (Some user) \<Rightarrow>
          (Respond 200
             (JObj [(''success'', JBool True), (''data'', JObj [(''user'', profile_view user)])]),
           s, [FindById uid]))"

section \<open>An in-memory user store\<close>

text \<open>
  Modelled from the spec: the user store (\<^verbatim>\<open>models/User\<close>) and the token issuer
  (\<^verbatim>\<open>jsonwebtoken\<close> with \<^verbatim>\<open>config/jwt\<close>), which the source at hand requires and does
  not contain. The store is the list of its documents; an email identifies at most one of
  them, so a lookup returns the first match and \<open>create\<close> refuses a second document for
  an email. The password is hashed on creation and \<open>comparePassword\<close> checks a plaintext
  against the stored hash. \<open>save\<close> writes the document back under its id. The role
  defaults to \<^verbatim>\<open>patient\<close>. The theorems below hold for every collaborator; this one
  instantiates them.
\<close>

definition mem_hash :: "jsval \<Rightarrow> jsval" where
  "mem_hash pw = (case pw of JStr p \<Rightarrow> JStr (''hash:'' @ p) | _ \<Rightarrow> JUndefined)"

definition mem_create :: "user_doc list \<Rightarrow> jsval \<Rightarrow> err + user_doc \<times> user_doc list" where
  "mem_create s f =
     (case find (\<lambda>u. email u = get_prop f ''email'') s of
        Some u \<Rightarrow> Inl (Thrown ''duplicate key'')
      | None \<Rightarrow>
          (let user = \<lparr>doc_id = JNum (int (length s) + 1), name = get_prop f ''name'',
                       email = get_prop f ''email'', password = mem_hash (get_prop f ''password''),
                       phone = get_prop f ''phone'', age = get_prop f ''age'',
                       gender = get_prop f ''gender'', role = JStr ''patient'',
                       createdAt = JNum 0\<rparr>
           in Inr (user, s @ [user])))"

definition mem_collab :: "user_doc list collab" where
  "mem_collab =
     \<lparr>findOne = (\<lambda>s e. Inr (find (\<lambda>u. email u = e) s)),
      comparePassword = (\<lambda>u pw. Inr (password u = mem_hash pw)),
      save = (\<lambda>s d. Inr (map (\<lambda>u. if doc_id u = doc_id d then d else u) s)),
      create = mem_create,
      findById = (\<lambda>s i. Inr (find (\<lambda>u. doc_id u = i) s)),
      sign = (\<lambda>p k opts. Inr (JStr ''signed-token'')),
      jwt_secret = JStr ''secret'',
      jwt_expiresIn = JStr ''7d''\<rparr>"

text \<open>
  A stored user whose age is 0 and whose gender was never given, as the store holds it
  after a registration with \<^verbatim>\<open>age: 0\<close> and no gender.
\<close>

definition alice :: user_doc where
  "alice = \<lparr>doc_id = JNum 1, name = JStr ''Alice'', email = JStr ''alice@example.com'',
            password = JStr ''hash:pw1'', phone = JStr ''555'', age = JNum 0,
            gender = JUndefined, role = JStr ''patient'', createdAt = JNum 0\<rparr>"

text \<open>
  A first registration of a new user, the document the store creates for it, and a
  second registration of the stored user with the same password and other contact data.
\<close>

definition bob_request :: "(string \<times> jsval) list" where
  "bob_request =
     [(''name'', JStr ''Bob''), (''email'', JStr ''bob@example.com''),
      (''password'', JStr ''pw2''), (''phone'', JStr ''777'')]"

definition bob :: user_doc where
  "bob = \<lparr>doc_id = JNum 2, name = JStr ''Bob'', email = JStr ''bob@example.com'',
          password = JStr ''hash:pw2'', phone = JStr ''777'', age = JUndefined,
          gender = JUndefined, role = JStr ''patient'', createdAt = JNum 0\<rparr>"

definition alice_again :: "(string \<times> jsval) list" where
  "alice_again =
     [(''name'', JStr ''Alice''), (''email'', JStr ''alice@example.com''),
      (''password'', JStr ''pw1''), (''phone'', JStr ''999''), (''age'', JNum 30),
      (''gender'', JStr ''female'')]"

text \<open>
  The stored user after that second registration; a registration of the stored user with
  an age, another phone and an empty gender; and a login of the stored user.
\<close>

definition alice_filled :: user_doc where
  "alice_filled = alice\<lparr>age := JNum 30, gender := JStr ''female''\<rparr>"

definition alice_blank :: "(string \<times> jsval) list" where
  "alice_blank =
     [(''email'', JStr ''alice@example.com''), (''password'', JStr ''pw1''),
      (''phone'', JStr ''999''), (''age'', JNum 41), (''gender'', JStr [])]"

definition alice_login :: "(string \<times> jsval) list" where
  "alice_login = [(''email'', JStr ''alice@example.com''), (''password'', JStr ''pw1'')]"



section \<open>Auxiliary facts\<close>

lemma alice_again_fields:
  "field alice_again ''email'' = JStr ''alice@example.com''"
  "field alice_again ''password'' = JStr ''pw1''"
  "field alice_again ''phone'' = JStr ''999''"
  "field alice_again ''age'' = JNum 30"
  "field alice_again ''gender'' = JStr ''female''"
  by (simp_all add: alice_again_def field_def)

lemma bob_request_fields:
  "field bob_request ''name'' = JStr ''Bob''"
  "field bob_request ''email'' = JStr ''bob@example.com''"
  "field bob_request ''password'' = JStr ''pw2''"
  "field bob_request ''phone'' = JStr ''777''"
  "field bob_request ''age'' = JUndefined"
  "field bob_request ''gender'' = JUndefined"
  by (simp_all add: bob_request_def field_def)

lemma mem_findOne_alice:
  "findOne mem_collab [alice] (JStr ''alice@example.com'') = Inr (Some alice)"
  "findOne mem_collab [alice] (JStr ''bob@example.com'') = Inr None"
  by (simp_all add: mem_collab_def alice_def)

lemma mem_compare_alice:
  "comparePassword mem_collab alice (JStr ''pw1'') = Inr True"
  "comparePassword mem_collab alice (JStr ''guess'') = Inr False"
  "comparePassword mem_collab alice (JStr []) = Inr False"
  by (simp_all add: mem_collab_def alice_def mem_hash_def)

lemma mem_sign: "sign mem_collab p k opts = Inr (JStr ''signed-token'')"
  by (simp add: mem_collab_def)

lemma mem_config:
  "jwt_secret mem_collab = JStr ''secret''" "jwt_expiresIn mem_collab = JStr ''7d''"
  by (simp_all add: mem_collab_def)

lemma backfill_eq:
  "backfill u p a g =
     (u\<lparr>phone := (if truthy p \<and> \<not> truthy (phone u) then p else phone u),
        age := (if truthy a \<and> \<not> truthy (age u) then a else age u),
        gender := (if truthy g \<and> \<not> truthy (gender u) then g else gender u)\<rparr>,
      (truthy p \<and> \<not> truthy (phone u)) \<or> (truthy a \<and> \<not> truthy (age u)) \<or>
      (truthy g \<and> \<not> truthy (gender u)))"
  by (simp add: backfill_def)

lemma backfill_changed: "snd (backfill u p a g) \<longleftrightarrow> fst (backfill u p a g) \<noteq> u"
  unfolding backfill_eq by (cases u) auto

lemma backfill_other_fields:
  "doc_id (fst (backfill u p a g)) = doc_id u"
  "name (fst (backfill u p a g)) = name u"
  "email (fst (backfill u p a g)) = email u"
  "password (fst (backfill u p a g)) = password u"
  "role (fst (backfill u p a g)) = role u"
  "createdAt (fst (backfill u p a g)) = createdAt u"
  by (simp_all add: backfill_eq)

lemma register_verified:
  assumes "findOne C s (field body ''email'') = Inr (Some u)"
      and "truthy (field body ''password'')"
      and "comparePassword C u (field body ''password'') = Inr True"
  shows "register C s body =
           register_recognized C s body u
             [FindOne (field body ''email''), ComparePassword u (field body ''password'')]"
  using assms by (simp add: register_def)

lemma register_recognized_saves:
  assumes "Save d \<in> set (snd (snd (register_recognized C s body u cs)))"
      and "\<forall>x. Save x \<notin> set cs"
  shows "d = fst (backfill u (field body ''phone'') (field body ''age'') (field body ''gender''))"
  using assms
  by (auto simp: register_recognized_def generateToken_call_def Let_def
           split: prod.splits sum.splits if_splits)

lemma register_recognized_store:
  "fst (snd (register_recognized C s body u cs)) = s \<or>
   save C s (fst (backfill u (field body ''phone'') (field body ''age'') (field body ''gender'')))
     = Inr (fst (snd (register_recognized C s body u cs)))"
  by (auto simp: register_recognized_def Let_def split: prod.splits sum.splits if_splits)

lemma register_recognized_save_iff:
  assumes "\<forall>x. Save x \<notin> set cs"
  shows "(\<exists>d. Save d \<in> set (snd (snd (register_recognized C s body u cs)))) \<longleftrightarrow>
         snd (backfill u (field body ''phone'') (field body ''age'') (field body ''gender''))"
  using assms
  by (auto simp: register_recognized_def generateToken_call_def Let_def
           split: prod.splits sum.splits if_splits)

lemma alice_login_fields:
  "field alice_login ''email'' = JStr ''alice@example.com''"
  "field alice_login ''password'' = JStr ''pw1''"
  by (simp_all add: alice_login_def field_def)

lemma login_alice:
  "login mem_collab [alice] alice_login =
     (Respond 200 (auth_body ''Login successful'' alice (JStr ''signed-token'')), [alice],
      [FindOne (JStr ''alice@example.com''), ComparePassword alice (JStr ''pw1''),
       generateToken_call mem_collab (doc_id alice)])"
  by (simp add: login_def alice_login_fields mem_findOne_alice mem_compare_alice
        generateToken_def mem_sign)

lemma mem_findById_alice:
  "findById mem_collab [alice] (JNum 1) = Inr (Some alice)"
  "findById mem_collab [alice] (JNum 7) = Inr None"
  by (simp_all add: mem_collab_def alice_def)

lemma alice_blank_fields:
  "field alice_blank ''email'' = JStr ''alice@example.com''"
  "field alice_blank ''password'' = JStr ''pw1''"
  "field alice_blank ''phone'' = JStr ''999''"
  "field alice_blank ''age'' = JNum 41"
  "field alice_blank ''gender'' = JStr []"
  by (simp_all add: alice_blank_def field_def)

lemma alice_fields:
  "doc_id alice = JNum 1" "name alice = JStr ''Alice''" "email alice = JStr ''alice@example.com''"
  "password alice = JStr ''hash:pw1''" "phone alice = JStr ''555''" "age alice = JNum 0"
  "gender alice = JUndefined" "role alice = JStr ''patient''" "createdAt alice = JNum 0"
  by (simp_all add: alice_def)

lemma alice_filled_fields:
  "doc_id alice_filled = JNum 1" "phone alice_filled = JStr ''555''"
  "age alice_filled = JNum 30" "gender alice_filled = JStr ''female''"
  "alice_filled \<noteq> alice"
  by (simp_all add: alice_filled_def alice_def)

lemma mem_save_alice: "doc_id d = JNum 1 \<Longrightarrow> save mem_collab [alice] d = Inr [d]"
  by (simp add: mem_collab_def alice_fields)

lemma backfill_alice_again:
  "backfill alice (JStr ''999'') (JNum 30) (JStr ''female'') = (alice_filled, True)"
  by (simp add: backfill_eq alice_fields alice_filled_def)

lemma backfill_alice_blank:
  "backfill alice (JStr ''999'') (JNum 41) (JStr []) = (alice\<lparr>age := JNum 41\<rparr>, True)"
  by (simp add: backfill_eq alice_fields)

lemma register_alice_again:
  "register mem_collab [alice] alice_again =
     (Respond 200 (auth_body ''Existing patient recognized. Logged in successfully.''
                     alice_filled (JStr ''signed-token'')),
      [alice_filled],
      [FindOne (JStr ''alice@example.com''), ComparePassword alice (JStr ''pw1''),
       Save alice_filled, generateToken_call mem_collab (JNum 1)])"
proof -
  have "register mem_collab [alice] alice_again =
          register_recognized mem_collab [alice] alice_again alice
            [FindOne (field alice_again ''email''),
             ComparePassword alice (field alice_again ''password'')]"
    by (rule register_verified) (simp_all add: alice_again_fields mem_findOne_alice mem_compare_alice)
  also have "\<dots> = (Respond 200 (auth_body ''Existing patient recognized. Logged in successfully.''
                     alice_filled (JStr ''signed-token'')),
      [alice_filled],
      [FindOne (JStr ''alice@example.com''), ComparePassword alice (JStr ''pw1''),
       Save alice_filled, generateToken_call mem_collab (JNum 1)])"
    by (simp add: register_recognized_def alice_again_fields backfill_alice_again
          mem_save_alice generateToken_def mem_sign alice_filled_def alice_fields)
  finally show ?thesis .
qed

lemma register_alice_blank:
  "register mem_collab [alice] alice_blank =
     (Respond 200 (auth_body ''Existing patient recognized. Logged in successfully.''
                     (alice\<lparr>age := JNum 41\<rparr>) (JStr ''signed-token'')),
      [alice\<lparr>age := JNum 41\<rparr>],
      [FindOne (JStr ''alice@example.com''), ComparePassword alice (JStr ''pw1''),
       Save (alice\<lparr>age := JNum 41\<rparr>), generateToken_call mem_collab (JNum 1)])"
proof -
  have "register mem_collab [alice] alice_blank =
          register_recognized mem_collab [alice] alice_blank alice
            [FindOne (field alice_blank ''email''),
             ComparePassword alice (field alice_blank ''password'')]"
    by (rule register_verified) (simp_all add: alice_blank_fields mem_findOne_alice mem_compare_alice)
  also have "\<dots> = (Respond 200 (auth_body ''Existing patient recognized. Logged in successfully.''
                     (alice\<lparr>age := JNum 41\<rparr>) (JStr ''signed-token'')),
      [alice\<lparr>age := JNum 41\<rparr>],
      [FindOne (JStr ''alice@example.com''), ComparePassword alice (JStr ''pw1''),
       Save (alice\<lparr>age := JNum 41\<rparr>), generateToken_call mem_collab (JNum 1)])"
    by (simp add: register_recognized_def alice_blank_fields backfill_alice_blank
          mem_save_alice generateToken_def mem_sign alice_fields)
  finally show ?thesis .
qed



lemma register_paths:
  obtains (failed) e cs where "register C s body = (Next e, s, cs)"
      and "\<forall>p k opts. Sign p k opts \<notin> set cs"
  | (recognized) u where "findOne C s (field body ''email'') = Inr (Some u)"
      and "register C s body =
             register_recognized C s body u
               [FindOne (field body ''email''), ComparePassword u (field body ''password'')]"
  | (new) "findOne C s (field body ''email'') = Inr None"
      and "register C s body = register_new C s body [FindOne (field body ''email'')]"
proof (cases "findOne C s (field body ''email'')")
  case (Inl e)
  then have "register C s body = (Next e, s, [FindOne (field body ''email'')])"
    by (simp add: register_def)
  then show ?thesis by (rule failed) simp
next
  case (Inr found)
  show ?thesis
  proof (cases found)
    case None
    with Inr have "register C s body = register_new C s body [FindOne (field body ''email'')]"
      by (simp add: register_def)
    with Inr None show ?thesis by (simp add: new)
  next
    case (Some u)
    show ?thesis
    proof (cases "truthy (field body ''password'')")
      case False
      with Inr Some have "register C s body =
          (Next (AppError ''Account already exists with this email. Please login.'' 400),
           s, [FindOne (field body ''email'')])"
        by (simp add: register_def)
      then show ?thesis by (rule failed) simp
    next
      case True
      show ?thesis
      proof (cases "comparePassword C u (field body ''password'')")
        case (Inl e)
        with Inr Some True have "register C s body =
            (Next e, s, [FindOne (field body ''email''),
                         ComparePassword u (field body ''password'')])"
          by (simp add: register_def)
        then show ?thesis by (rule failed) simp
      next
        case (Inr ok)
        show ?thesis
        proof (cases ok)
          case False
          with \<open>findOne C s (field body ''email'') = Inr found\<close> Some True Inr
          have "register C s body =
            (Next (AppError
               ''Account already exists with this email. Please login with your original password.''
               400),
             s, [FindOne (field body ''email''), ComparePassword u (field body ''password'')])"
            by (simp add: register_def)
          then show ?thesis by (rule failed) simp
        next
          case ok: True
          from \<open>findOne C s (field body ''email'') = Inr found\<close> Some
          have found_u: "findOne C s (field body ''email'') = Inr (Some u)" by simp
          from Inr ok have "comparePassword C u (field body ''password'') = Inr True" by simp
          from register_verified [OF found_u True this] found_u
          show ?thesis by (simp add: recognized)
        qed
      qed
    qed
  qed
qed

lemma register_recognized_responds:
  assumes "fst (register_recognized C s body u cs) = Respond st b"
  shows "\<exists>token. st = 200 \<and>
           b = auth_body ''Existing patient recognized. Logged in successfully.''
                 (fst (backfill u (field body ''phone'') (field body ''age'')
                         (field body ''gender''))) token \<and>
           generateToken C (doc_id u) = Inr token \<and>
           generateToken_call C (doc_id u)
             \<in> set (snd (snd (register_recognized C s body u cs)))"
proof -
  obtain d w where bf:
    "backfill u (field body ''phone'') (field body ''age'') (field body ''gender'') = (d, w)"
    by (cases "backfill u (field body ''phone'') (field body ''age'') (field body ''gender'')")
  have "doc_id d = doc_id u"
    using backfill_other_fields(1) [of u "field body ''phone''" "field body ''age''" "field body ''gender''"]
    by (simp add: bf)
  with assms show ?thesis
    by (auto simp: register_recognized_def bf Let_def split: sum.splits if_splits)
qed

lemma register_new_responds:
  assumes "fst (register_new C s body cs) = Respond st b"
  shows "\<exists>user s' token. create C s (create_fields body) = Inr (user, s') \<and> st = 201 \<and>
           b = auth_body ''User registered successfully'' user token \<and>
           generateToken C (doc_id user) = Inr token \<and>
           generateToken_call C (doc_id user) \<in> set (snd (snd (register_new C s body cs)))"
  using assms
  by (auto simp: register_new_def Let_def split: sum.splits prod.splits)

lemma login_responds:
  assumes "fst (login C s body) = Respond st b"
  shows "\<exists>user token. findOne C s (field body ''email'') = Inr (Some user) \<and> st = 200 \<and>
           b = auth_body ''Login successful'' user token \<and>
           generateToken C (doc_id user) = Inr token \<and>
           generateToken_call C (doc_id user) \<in> set (snd (snd (login C s body)))"
  using assms
  by (auto simp: login_def Let_def split: sum.splits option.splits if_splits)



lemma auth_body_user: "get_prop (get_prop (auth_body msg u token) ''data'') ''user'' = user_view u"
  by (simp add: auth_body_def field_def)

lemma auth_body_keys:
  "keys (auth_body msg u token) = [''success'', ''message'', ''data'']"
  "keys (get_prop (auth_body msg u token) ''data'') = [''user'', ''token'']"
  by (simp_all add: auth_body_def field_def)

lemma getMe_responds:
  assumes "fst (getMe C s uid) = Respond st b"
  shows "\<exists>user. findById C s uid = Inr (Some user) \<and> st = 200 \<and>
           b = JObj [(''success'', JBool True), (''data'', JObj [(''user'', profile_view user)])]"
  using assms
  by (auto simp: getMe_def split: sum.splits option.splits)

lemma user_view_keys:
  "keys (user_view u) = [''id'', ''name'', ''email'', ''role'', ''phone'']"
  "keys (profile_view u) = [''id'', ''name'', ''email'', ''role'', ''createdAt'']"
  by (simp_all add: user_view_def profile_view_def)

lemma register_recognized_unchanged:
  assumes "backfill u (field body ''phone'') (field body ''age'') (field body ''gender'') = (d, False)"
  shows "fst (snd (register_recognized C s body u cs)) = s \<and>
         snd (snd (register_recognized C s body u cs)) = cs @ [generateToken_call C (doc_id d)]"
  using assms by (simp add: register_recognized_def Let_def split: sum.splits)

lemma register_recognized_saved:
  assumes "backfill u (field body ''phone'') (field body ''age'') (field body ''gender'') = (d, True)"
      and "save C s d = Inr s'"
  shows "fst (snd (register_recognized C s body u cs)) = s' \<and>
         snd (snd (register_recognized C s body u cs)) =
           cs @ [Save d, generateToken_call C (doc_id d)]"
  using assms by (simp add: register_recognized_def Let_def split: sum.splits)

lemma register_recognized_save_failed:
  assumes "backfill u (field body ''phone'') (field body ''age'') (field body ''gender'') = (d, True)"
      and "save C s d = Inl e"
  shows "register_recognized C s body u cs = (Next e, s, cs @ [Save d])"
  using assms by (simp add: register_recognized_def)

lemma register_recognized_answers:
  assumes "backfill u (field body ''phone'') (field body ''age'') (field body ''gender'') = (d, w)"
      and "w \<longrightarrow> (\<exists>s'. save C s d = Inr s')"
      and "generateToken C (doc_id d) = Inr token"
  shows "fst (register_recognized C s body u cs) =
           Respond 200 (auth_body ''Existing patient recognized. Logged in successfully.'' d token)"
  using assms by (auto simp: register_recognized_def Let_def)





section \<open>Login failures\<close>

text \<open>
  C1 (as amended). For every login request that supplies a truthy email and a truthy
  password: when the lookup finds no user, and when it finds a user whose
  \<^verbatim>\<open>comparePassword\<close> answers false, the handler forwards the same error,
  \<^verbatim>\<open>AppError('Invalid credentials', 401)\<close>, and leaves the store as it was. The two
  requests and the two stores are arbitrary.
\<close>

theorem login_failures_indistinguishable:
  assumes "truthy (field b1 ''email'')" and "truthy (field b1 ''password'')"
      and "truthy (field b2 ''email'')" and "truthy (field b2 ''password'')"
      and "findOne C s1 (field b1 ''email'') = Inr None"
      and "findOne C s2 (field b2 ''email'') = Inr (Some u)"
      and "comparePassword C u (field b2 ''password'') = Inr False"
  shows "fst (login C s1 b1) = Next (AppError ''Invalid credentials'' 401) \<and>
         fst (login C s2 b2) = fst (login C s1 b1) \<and>
         fst (snd (login C s1 b1)) = s1 \<and> fst (snd (login C s2 b2)) = s2"
  using assms by (simp add: login_def)

theorem login_failures_indistinguishable_witness:
  "fst (login mem_collab [alice]
          [(''email'', JStr ''bob@example.com''), (''password'', JStr ''pw1'')])
     = Next (AppError ''Invalid credentials'' 401) \<and>
   fst (login mem_collab [alice]
          [(''email'', JStr ''alice@example.com''), (''password'', JStr ''guess'')])
     = fst (login mem_collab [alice]
          [(''email'', JStr ''bob@example.com''), (''password'', JStr ''pw1'')])"
proof -
  let ?b1 = "[(''email'', JStr ''bob@example.com''), (''password'', JStr ''pw1'')]"
  let ?b2 = "[(''email'', JStr ''alice@example.com''), (''password'', JStr ''guess'')]"
  have e1: "truthy (field ?b1 ''email'')" and p1: "truthy (field ?b1 ''password'')"
   and e2: "truthy (field ?b2 ''email'')" and p2: "truthy (field ?b2 ''password'')"
    by (simp_all add: field_def)
  have unknown: "findOne mem_collab [alice] (field ?b1 ''email'') = Inr None"
    by (simp add: mem_collab_def field_def alice_def)
  have known: "findOne mem_collab [alice] (field ?b2 ''email'') = Inr (Some alice)"
    by (simp add: mem_collab_def field_def alice_def)
  have wrong: "comparePassword mem_collab alice (field ?b2 ''password'') = Inr False"
    by (simp add: mem_collab_def field_def alice_def mem_hash_def)
  from login_failures_indistinguishable [OF e1 p1 e2 p2 unknown known wrong]
  show ?thesis by simp
qed

text \<open>
  C1 as stated fails at a supplied password that is falsy: the stored user's email with
  the empty string as password. The empty string does not verify against the stored
  hash, and the handler answers 400 "Please provide email and password" from its first
  check, without a lookup, where the claim has the generic 401.
\<close>

theorem login_empty_password_counterexample:
  "findOne mem_collab [alice] (JStr ''alice@example.com'') = Inr (Some alice) \<and>
   comparePassword mem_collab alice (JStr []) = Inr False \<and>
   login mem_collab [alice] [(''email'', JStr ''alice@example.com''), (''password'', JStr [])]
     = (Next (AppError ''Please provide email and password'' 400), [alice], []) \<and>
   fst (login mem_collab [alice]
          [(''email'', JStr ''alice@example.com''), (''password'', JStr [])])
     \<noteq> Next (AppError ''Invalid credentials'' 401)"
  by (simp add: login_def field_def mem_findOne_alice mem_compare_alice)

section \<open>Registration of a new user\<close>

text \<open>
  C3. For every register request whose email matches no stored user, when
  \<^verbatim>\<open>User.create\<close> and the signing return normally: the handler calls
  \<^verbatim>\<open>User.create\<close> once, with the six fields of the request, signs a token for the
  id of the created document, and answers 201 with the success flag, the message, the
  user object (id, name, email, role, phone) of the created document and the token.
\<close>

theorem register_new_user:
  assumes "findOne C s (field body ''email'') = Inr None"
      and "create C s (JObj
             [(''name'', field body ''name''), (''email'', field body ''email''),
              (''password'', field body ''password''), (''phone'', field body ''phone''),
              (''age'', field body ''age''), (''gender'', field body ''gender'')])
           = Inr (user, s')"
      and "sign C (JObj [(''id'', doc_id user)]) (jwt_secret C)
             (JObj [(''expiresIn'', jwt_expiresIn C)]) = Inr token"
  shows "register C s body =
           (Respond 201 (JObj
              [(''success'', JBool True),
               (''message'', JStr ''User registered successfully''),
               (''data'', JObj
                  [(''user'', JObj
                     [(''id'', doc_id user), (''name'', name user), (''email'', email user),
                      (''role'', role user), (''phone'', phone user)]),
                   (''token'', token)])]),
            s',
            [FindOne (field body ''email''),
             Create (JObj
               [(''name'', field body ''name''), (''email'', field body ''email''),
                (''password'', field body ''password''), (''phone'', field body ''phone''),
                (''age'', field body ''age''), (''gender'', field body ''gender'')]),
             Sign (JObj [(''id'', doc_id user)]) (jwt_secret C)
               (JObj [(''expiresIn'', jwt_expiresIn C)])])"
  using assms
  by (simp add: register_def register_new_def create_fields_def generateToken_def Let_def
        generateToken_call_def token_payload_def token_options_def auth_body_def user_view_def)

theorem register_new_user_witness:
  "register mem_collab [alice] bob_request =
     (Respond 201 (JObj
        [(''success'', JBool True),
         (''message'', JStr ''User registered successfully''),
         (''data'', JObj
            [(''user'', JObj
               [(''id'', JNum 2), (''name'', JStr ''Bob''), (''email'', JStr ''bob@example.com''),
                (''role'', JStr ''patient''), (''phone'', JStr ''777'')]),
             (''token'', JStr ''signed-token'')])]),
      [alice, bob],
      [FindOne (JStr ''bob@example.com''),
       Create (JObj
         [(''name'', JStr ''Bob''), (''email'', JStr ''bob@example.com''),
          (''password'', JStr ''pw2''), (''phone'', JStr ''777''),
          (''age'', JUndefined), (''gender'', JUndefined)]),
       Sign (JObj [(''id'', JNum 2)]) (JStr ''secret'') (JObj [(''expiresIn'', JStr ''7d'')])])"
proof -
  have unknown: "findOne mem_collab [alice] (field bob_request ''email'') = Inr None"
    by (simp add: bob_request_fields mem_findOne_alice)
  have created: "create mem_collab [alice] (JObj
             [(''name'', field bob_request ''name''), (''email'', field bob_request ''email''),
              (''password'', field bob_request ''password''),
              (''phone'', field bob_request ''phone''),
              (''age'', field bob_request ''age''), (''gender'', field bob_request ''gender'')])
           = Inr (bob, [alice, bob])"
    unfolding bob_request_fields
    by (simp add: mem_collab_def mem_create_def mem_hash_def field_def alice_def bob_def Let_def)
  have signed: "sign mem_collab (JObj [(''id'', doc_id bob)]) (jwt_secret mem_collab)
             (JObj [(''expiresIn'', jwt_expiresIn mem_collab)]) = Inr (JStr ''signed-token'')"
    by (rule mem_sign)
  from register_new_user [OF unknown created signed]
  show ?thesis by (simp add: bob_request_fields mem_config bob_def)
qed

section \<open>Registration with the email of a stored user\<close>

text \<open>
  C6. For every register request whose email has a stored user and whose password is
  missing (or falsy in any other way): the handler forwards the error "Account already
  exists with this email. Please login." with status 400; the lookup is the only call
  made, so no credential is verified, the store is unchanged and no token is signed.
\<close>

theorem register_no_password:
  assumes "findOne C s (field body ''email'') = Inr (Some u)"
      and "\<not> truthy (field body ''password'')"
  shows "register C s body =
           (Next (AppError ''Account already exists with this email. Please login.'' 400),
            s, [FindOne (field body ''email'')])"
  using assms by (simp add: register_def)

theorem register_no_password_witness:
  "register mem_collab [alice] [(''email'', JStr ''alice@example.com'')] =
     (Next (AppError ''Account already exists with this email. Please login.'' 400),
      [alice], [FindOne (JStr ''alice@example.com'')])"
proof -
  let ?body = "[(''email'', JStr ''alice@example.com'')]"
  have f: "field ?body ''email'' = JStr ''alice@example.com''"
          "field ?body ''password'' = JUndefined"
    by (simp_all add: field_def)
  have found: "findOne mem_collab [alice] (field ?body ''email'') = Inr (Some alice)"
    by (simp add: f mem_findOne_alice)
  have missing: "\<not> truthy (field ?body ''password'')"
    by (simp add: f)
  from register_no_password [OF found missing]
  show ?thesis by (simp add: f)
qed

text \<open>
  C5 (as amended). For every register request whose email has a stored user and whose
  password is truthy and is rejected by \<^verbatim>\<open>comparePassword\<close>: the handler forwards
  the error "Account already exists with this email. Please login with your original
  password." with status 400; the store is unchanged, and the only calls made are the
  lookup and the comparison (no save, no create, no signing).
\<close>

theorem register_wrong_password:
  assumes "findOne C s (field body ''email'') = Inr (Some u)"
      and "truthy (field body ''password'')"
      and "comparePassword C u (field body ''password'') = Inr False"
  shows "register C s body =
           (Next (AppError
              ''Account already exists with this email. Please login with your original password.''
              400),
            s,
            [FindOne (field body ''email''), ComparePassword u (field body ''password'')])"
  using assms by (simp add: register_def)

theorem register_wrong_password_witness:
  "register mem_collab [alice]
     [(''email'', JStr ''alice@example.com''), (''password'', JStr ''guess'')] =
     (Next (AppError
        ''Account already exists with this email. Please login with your original password.''
        400),
      [alice],
      [FindOne (JStr ''alice@example.com''), ComparePassword alice (JStr ''guess'')])"
proof -
  let ?body = "[(''email'', JStr ''alice@example.com''), (''password'', JStr ''guess'')]"
  have f: "field ?body ''email'' = JStr ''alice@example.com''"
          "field ?body ''password'' = JStr ''guess''"
    by (simp_all add: field_def)
  have found: "findOne mem_collab [alice] (field ?body ''email'') = Inr (Some alice)"
    by (simp add: f mem_findOne_alice)
  have given: "truthy (field ?body ''password'')"
    by (simp add: f)
  have wrong: "comparePassword mem_collab alice (field ?body ''password'') = Inr False"
    by (simp add: f mem_compare_alice)
  from register_wrong_password [OF found given wrong]
  show ?thesis by (simp add: f)
qed

text \<open>
  C5 as stated fails for a password that is supplied and falsy: the empty string does
  not verify against the stored hash, and the handler answers with the other message,
  "Account already exists with this email. Please login.", without comparing.
\<close>

theorem register_empty_password_counterexample:
  "findOne mem_collab [alice] (JStr ''alice@example.com'') = Inr (Some alice) \<and>
   comparePassword mem_collab alice (JStr []) = Inr False \<and>
   register mem_collab [alice]
     [(''email'', JStr ''alice@example.com''), (''password'', JStr [])] =
     (Next (AppError ''Account already exists with this email. Please login.'' 400),
      [alice], [FindOne (JStr ''alice@example.com'')]) \<and>
   fst (register mem_collab [alice]
     [(''email'', JStr ''alice@example.com''), (''password'', JStr [])]) \<noteq>
     Next (AppError
        ''Account already exists with this email. Please login with your original password.''
        400)"
  by (simp add: register_def field_def mem_findOne_alice mem_compare_alice)

text \<open>
  The recognized path in full. For every register request whose email has a stored user
  \<open>u\<close> and whose truthy password is accepted by \<^verbatim>\<open>comparePassword\<close>, when the save
  (if any) and the signing return normally: a field among phone, age and gender changes
  only if it is falsy on the record and truthy in the request, and then it takes the
  request's value; no other field changes; \<^verbatim>\<open>save\<close> is called exactly when the
  document changed; a token is signed for the id of \<open>u\<close>; \<^verbatim>\<open>User.create\<close> is not
  called; the answer is 200 with the message "Existing patient recognized. Logged in
  successfully." and the user object (id, name, email, role, phone) of the document.
\<close>

theorem register_recognized_duplicate:
  assumes found: "findOne C s (field body ''email'') = Inr (Some u)"
      and given: "truthy (field body ''password'')"
      and same: "comparePassword C u (field body ''password'') = Inr True"
      and d: "d = fst (backfill u (field body ''phone'') (field body ''age'') (field body ''gender''))"
      and written: "if d = u then s' = s else save C s d = Inr s'"
      and signed: "sign C (JObj [(''id'', doc_id u)]) (jwt_secret C)
                     (JObj [(''expiresIn'', jwt_expiresIn C)]) = Inr token"
  shows "register C s body =
           (Respond 200 (JObj
              [(''success'', JBool True),
               (''message'', JStr ''Existing patient recognized. Logged in successfully.''),
               (''data'', JObj
                  [(''user'', JObj
                     [(''id'', doc_id u), (''name'', name u), (''email'', email u),
                      (''role'', role u), (''phone'', phone d)]),
                   (''token'', token)])]),
            s',
            [FindOne (field body ''email''), ComparePassword u (field body ''password'')] @
            (if d = u then [] else [Save d]) @
            [Sign (JObj [(''id'', doc_id u)]) (jwt_secret C)
               (JObj [(''expiresIn'', jwt_expiresIn C)])]) \<and>
         (phone d \<noteq> phone u \<longrightarrow>
            \<not> truthy (phone u) \<and> truthy (field body ''phone'') \<and> phone d = field body ''phone'') \<and>
         (age d \<noteq> age u \<longrightarrow>
            \<not> truthy (age u) \<and> truthy (field body ''age'') \<and> age d = field body ''age'') \<and>
         (gender d \<noteq> gender u \<longrightarrow>
            \<not> truthy (gender u) \<and> truthy (field body ''gender'') \<and>
            gender d = field body ''gender'') \<and>
         doc_id d = doc_id u \<and> name d = name u \<and> email d = email u \<and>
         password d = password u \<and> role d = role u \<and> createdAt d = createdAt u"
proof -
  let ?bf = "backfill u (field body ''phone'') (field body ''age'') (field body ''gender'')"
  have bf: "?bf = (d, d \<noteq> u)"
    using d backfill_changed [of u "field body ''phone''" "field body ''age''" "field body ''gender''"]
    by (cases ?bf) simp
  have run: "register C s body =
           register_recognized C s body u
             [FindOne (field body ''email''), ComparePassword u (field body ''password'')]"
    by (rule register_verified [OF found given same])
  have id: "doc_id d = doc_id u" "name d = name u" "email d = email u"
           "password d = password u" "role d = role u" "createdAt d = createdAt u"
    by (simp_all add: d backfill_other_fields)
  have result: "register_recognized C s body u
             [FindOne (field body ''email''), ComparePassword u (field body ''password'')] =
           (Respond 200 (JObj
              [(''success'', JBool True),
               (''message'', JStr ''Existing patient recognized. Logged in successfully.''),
               (''data'', JObj
                  [(''user'', JObj
                     [(''id'', doc_id u), (''name'', name u), (''email'', email u),
                      (''role'', role u), (''phone'', phone d)]),
                   (''token'', token)])]),
            s',
            [FindOne (field body ''email''), ComparePassword u (field body ''password'')] @
            (if d = u then [] else [Save d]) @
            [Sign (JObj [(''id'', doc_id u)]) (jwt_secret C)
               (JObj [(''expiresIn'', jwt_expiresIn C)])])"
    using written signed
    by (simp add: register_recognized_def bf id generateToken_def generateToken_call_def
          token_payload_def token_options_def auth_body_def user_view_def split: if_splits)
  have fields:
    "phone d \<noteq> phone u \<longrightarrow>
       \<not> truthy (phone u) \<and> truthy (field body ''phone'') \<and> phone d = field body ''phone''"
    "age d \<noteq> age u \<longrightarrow>
       \<not> truthy (age u) \<and> truthy (field body ''age'') \<and> age d = field body ''age''"
    "gender d \<noteq> gender u \<longrightarrow>
       \<not> truthy (gender u) \<and> truthy (field body ''gender'') \<and> gender d = field body ''gender''"
    by (simp_all add: d backfill_eq)
  show ?thesis unfolding run result using fields id by blast
qed

theorem register_recognized_duplicate_witness:
  "register mem_collab [alice] alice_again =
     (Respond 200 (JObj
        [(''success'', JBool True),
         (''message'', JStr ''Existing patient recognized. Logged in successfully.''),
         (''data'', JObj
            [(''user'', JObj
               [(''id'', JNum 1), (''name'', JStr ''Alice''),
                (''email'', JStr ''alice@example.com''),
                (''role'', JStr ''patient''), (''phone'', JStr ''555'')]),
             (''token'', JStr ''signed-token'')])]),
      [alice_filled],
      [FindOne (JStr ''alice@example.com''), ComparePassword alice (JStr ''pw1''),
       Save alice_filled,
       Sign (JObj [(''id'', JNum 1)]) (JStr ''secret'') (JObj [(''expiresIn'', JStr ''7d'')])]) \<and>
   phone alice_filled = phone alice \<and> age alice_filled = JNum 30 \<and>
   gender alice_filled = JStr ''female''"
proof -
  have found: "findOne mem_collab [alice] (field alice_again ''email'') = Inr (Some alice)"
    by (simp add: alice_again_fields mem_findOne_alice)
  have given: "truthy (field alice_again ''password'')"
    by (simp add: alice_again_fields)
  have same: "comparePassword mem_collab alice (field alice_again ''password'') = Inr True"
    by (simp add: alice_again_fields mem_compare_alice)
  have d: "alice_filled = fst (backfill alice (field alice_again ''phone'')
             (field alice_again ''age'') (field alice_again ''gender''))"
    by (simp add: alice_again_fields backfill_alice_again)
  have changed: "alice_filled \<noteq> alice"
    by (rule alice_filled_fields)
  have written: "if alice_filled = alice then [alice_filled] = [alice]
                 else save mem_collab [alice] alice_filled = Inr [alice_filled]"
    by (simp add: changed mem_save_alice alice_filled_fields)
  have signed: "sign mem_collab (JObj [(''id'', doc_id alice)]) (jwt_secret mem_collab)
                     (JObj [(''expiresIn'', jwt_expiresIn mem_collab)]) = Inr (JStr ''signed-token'')"
    by (rule mem_sign)
  from register_recognized_duplicate [OF found given same d written signed]
  show ?thesis
    by (simp add: alice_again_fields alice_fields mem_config alice_filled_fields)
qed

text \<open>
  C2 (what the code does where it departs from the claim). The stored user has the age
  0: the field is present on the record. A registration with the matching password and
  the age 41 makes the handler save the document with the age 41 and leaves 41 in the
  store. The guard \<^verbatim>\<open>age && !existingUser.age\<close> takes the stored 0 for a missing
  value, against the comment "backfill contact info if it was missing before".
\<close>

theorem recognized_registration_overwrites_age_zero:
  "findOne mem_collab [alice] (field alice_blank ''email'') = Inr (Some alice) \<and>
   comparePassword mem_collab alice (field alice_blank ''password'') = Inr True \<and>
   age alice = JNum 0 \<and> age alice \<noteq> JUndefined \<and> age alice \<noteq> JNull \<and>
   field alice_blank ''age'' = JNum 41 \<and>
   snd (snd (register mem_collab [alice] alice_blank)) =
     [FindOne (JStr ''alice@example.com''), ComparePassword alice (JStr ''pw1''),
      Save (alice\<lparr>age := JNum 41\<rparr>),
      Sign (JObj [(''id'', JNum 1)]) (JStr ''secret'') (JObj [(''expiresIn'', JStr ''7d'')])] \<and>
   fst (snd (register mem_collab [alice] alice_blank)) = [alice\<lparr>age := JNum 41\<rparr>] \<and>
   age (alice\<lparr>age := JNum 41\<rparr>) = JNum 41"
  by (simp add: register_alice_blank alice_blank_fields mem_findOne_alice mem_compare_alice
        alice_fields generateToken_call_def token_payload_def token_options_def mem_config)

text \<open>
  What the guards do keep. On the recognized path, every document the handler saves
  keeps the value of each of phone, age and gender that is truthy on the stored record,
  whatever the request holds for it; and the store afterwards is the store before, or
  the result of saving such a document.
\<close>

theorem backfill_keeps_truthy_fields:
  assumes found: "findOne C s (field body ''email'') = Inr (Some u)"
      and given: "truthy (field body ''password'')"
      and same: "comparePassword C u (field body ''password'') = Inr True"
  shows "(\<forall>d. Save d \<in> set (snd (snd (register C s body))) \<longrightarrow>
            (truthy (phone u) \<longrightarrow> phone d = phone u) \<and>
            (truthy (age u) \<longrightarrow> age d = age u) \<and>
            (truthy (gender u) \<longrightarrow> gender d = gender u)) \<and>
         (fst (snd (register C s body)) = s \<or>
          (\<exists>d. save C s d = Inr (fst (snd (register C s body))) \<and>
               (truthy (phone u) \<longrightarrow> phone d = phone u) \<and>
               (truthy (age u) \<longrightarrow> age d = age u) \<and>
               (truthy (gender u) \<longrightarrow> gender d = gender u)))"
proof -
  let ?d = "fst (backfill u (field body ''phone'') (field body ''age'') (field body ''gender''))"
  let ?cs = "[FindOne (field body ''email''), ComparePassword u (field body ''password'')]"
  have run: "register C s body = register_recognized C s body u ?cs"
    by (rule register_verified [OF found given same])
  have keeps: "(truthy (phone u) \<longrightarrow> phone ?d = phone u) \<and>
               (truthy (age u) \<longrightarrow> age ?d = age u) \<and>
               (truthy (gender u) \<longrightarrow> gender ?d = gender u)"
    by (simp add: backfill_eq)
  have fresh: "\<forall>x. Save x \<notin> set ?cs"
    by simp
  have saves: "Save d \<in> set (snd (snd (register C s body))) \<Longrightarrow> d = ?d" for d
    unfolding run by (erule register_recognized_saves) (rule fresh)
  have store: "fst (snd (register C s body)) = s \<or>
               save C s ?d = Inr (fst (snd (register C s body)))"
    unfolding run by (rule register_recognized_store)
  from keeps saves store show ?thesis by blast
qed

theorem backfill_keeps_truthy_fields_witness:
  "Save alice_filled \<in> set (snd (snd (register mem_collab [alice] alice_again))) \<and>
   truthy (phone alice) \<and> field alice_again ''phone'' \<noteq> phone alice \<and>
   phone alice_filled = phone alice"
proof -
  have found: "findOne mem_collab [alice] (field alice_again ''email'') = Inr (Some alice)"
    by (simp add: alice_again_fields mem_findOne_alice)
  have given: "truthy (field alice_again ''password'')"
    by (simp add: alice_again_fields)
  have same: "comparePassword mem_collab alice (field alice_again ''password'') = Inr True"
    by (simp add: alice_again_fields mem_compare_alice)
  have saved: "Save alice_filled \<in> set (snd (snd (register mem_collab [alice] alice_again)))"
    by (simp add: register_alice_again)
  have set: "truthy (phone alice)"
    by (simp add: alice_fields)
  have other: "field alice_again ''phone'' \<noteq> phone alice"
    by (simp add: alice_again_fields alice_fields)
  from backfill_keeps_truthy_fields [OF found given same] saved set
  have "phone alice_filled = phone alice" by blast
  with saved set other show ?thesis by blast
qed

text \<open>
  C4 (what the code does where it departs from the claim). The record's age is set, to
  0; a later registration with the matching password and the age 30 leaves 30 in the
  store: the stored value is overwritten. It is the same guard as above,
  \<^verbatim>\<open>age && !existingUser.age\<close>, that takes the stored 0 for a missing value.
\<close>

theorem stored_age_zero_overwritten:
  "findOne mem_collab [alice] (field alice_again ''email'') = Inr (Some alice) \<and>
   comparePassword mem_collab alice (field alice_again ''password'') = Inr True \<and>
   map age [alice] = [JNum 0] \<and>
   field alice_again ''age'' = JNum 30 \<and>
   map age (fst (snd (register mem_collab [alice] alice_again))) = [JNum 30]"
  by (simp add: register_alice_again alice_again_fields mem_findOne_alice mem_compare_alice
        alice_fields alice_filled_fields)

text \<open>
  C10. On the recognized path, let \<open>d\<close> be the record with each of phone, age and
  gender replaced by the request's value exactly when that value is truthy and the stored
  one is falsy. A field of \<open>d\<close> differs from the record if and only if that holds for
  it. If it holds for at least one field, the handler saves \<open>d\<close>: the store afterwards
  is the one \<^verbatim>\<open>save\<close> returns for \<open>d\<close>, and a failing save is forwarded with the
  store untouched. If it holds for no field, nothing is saved and the store is unchanged.
  \<open>d\<close> is the only document ever saved, and when the save (if any) and the signing
  return normally the answer is 200 with the phone of \<open>d\<close>. So a falsy request value is
  never written, and a falsy stored value is overwritten by a truthy one.
\<close>

theorem backfill_iff_truthy_request_falsy_record:
  assumes found: "findOne C s (field body ''email'') = Inr (Some u)"
      and given: "truthy (field body ''password'')"
      and same: "comparePassword C u (field body ''password'') = Inr True"
      and d: "d = u\<lparr>phone := (if truthy (field body ''phone'') \<and> \<not> truthy (phone u)
                               then field body ''phone'' else phone u),
                     age := (if truthy (field body ''age'') \<and> \<not> truthy (age u)
                             then field body ''age'' else age u),
                     gender := (if truthy (field body ''gender'') \<and> \<not> truthy (gender u)
                                then field body ''gender'' else gender u)\<rparr>"
  shows "(\<forall>x. Save x \<in> set (snd (snd (register C s body))) \<longrightarrow> x = d) \<and>
         ((\<exists>x. Save x \<in> set (snd (snd (register C s body)))) \<longleftrightarrow>
            (truthy (field body ''phone'') \<and> \<not> truthy (phone u)) \<or>
            (truthy (field body ''age'') \<and> \<not> truthy (age u)) \<or>
            (truthy (field body ''gender'') \<and> \<not> truthy (gender u))) \<and>
         (phone d \<noteq> phone u \<longleftrightarrow> truthy (field body ''phone'') \<and> \<not> truthy (phone u)) \<and>
         (age d \<noteq> age u \<longleftrightarrow> truthy (field body ''age'') \<and> \<not> truthy (age u)) \<and>
         (gender d \<noteq> gender u \<longleftrightarrow> truthy (field body ''gender'') \<and> \<not> truthy (gender u)) \<and>
         (\<forall>st b. fst (register C s body) = Respond st b \<longrightarrow>
            get_prop (get_prop (get_prop b ''data'') ''user'') ''phone'' = phone d) \<and>
         ((truthy (field body ''phone'') \<and> \<not> truthy (phone u)) \<or>
          (truthy (field body ''age'') \<and> \<not> truthy (age u)) \<or>
          (truthy (field body ''gender'') \<and> \<not> truthy (gender u)) \<longrightarrow>
            (\<forall>s'. save C s d = Inr s' \<longrightarrow>
               fst (snd (register C s body)) = s' \<and>
               snd (snd (register C s body)) =
                 [FindOne (field body ''email''), ComparePassword u (field body ''password''),
                  Save d,
                  Sign (JObj [(''id'', doc_id u)]) (jwt_secret C)
                    (JObj [(''expiresIn'', jwt_expiresIn C)])]) \<and>
            (\<forall>e. save C s d = Inl e \<longrightarrow>
               register C s body =
                 (Next e, s,
                  [FindOne (field body ''email''), ComparePassword u (field body ''password''),
                   Save d]))) \<and>
         (\<not> ((truthy (field body ''phone'') \<and> \<not> truthy (phone u)) \<or>
             (truthy (field body ''age'') \<and> \<not> truthy (age u)) \<or>
             (truthy (field body ''gender'') \<and> \<not> truthy (gender u))) \<longrightarrow>
            d = u \<and> fst (snd (register C s body)) = s \<and>
            snd (snd (register C s body)) =
              [FindOne (field body ''email''), ComparePassword u (field body ''password''),
               Sign (JObj [(''id'', doc_id u)]) (jwt_secret C)
                 (JObj [(''expiresIn'', jwt_expiresIn C)])]) \<and>
         (\<forall>token.
            sign C (JObj [(''id'', doc_id u)]) (jwt_secret C)
              (JObj [(''expiresIn'', jwt_expiresIn C)]) = Inr token \<longrightarrow>
            ((truthy (field body ''phone'') \<and> \<not> truthy (phone u)) \<or>
             (truthy (field body ''age'') \<and> \<not> truthy (age u)) \<or>
             (truthy (field body ''gender'') \<and> \<not> truthy (gender u)) \<longrightarrow>
               (\<exists>s'. save C s d = Inr s')) \<longrightarrow>
            fst (register C s body) =
              Respond 200 (JObj
                [(''success'', JBool True),
                 (''message'', JStr ''Existing patient recognized. Logged in successfully.''),
                 (''data'', JObj
                    [(''user'', JObj
                       [(''id'', doc_id u), (''name'', name u), (''email'', email u),
                        (''role'', role u), (''phone'', phone d)]),
                     (''token'', token)])]))"
proof -
  let ?bf = "backfill u (field body ''phone'') (field body ''age'') (field body ''gender'')"
  let ?cs = "[FindOne (field body ''email''), ComparePassword u (field body ''password'')]"
  let ?w = "(truthy (field body ''phone'') \<and> \<not> truthy (phone u)) \<or>
            (truthy (field body ''age'') \<and> \<not> truthy (age u)) \<or>
            (truthy (field body ''gender'') \<and> \<not> truthy (gender u))"
  have run: "register C s body = register_recognized C s body u ?cs"
    by (rule register_verified [OF found given same])
  have bf: "?bf = (d, ?w)"
    by (simp add: backfill_eq d)
  have fst_bf: "fst ?bf = d"
    by (simp add: bf)
  have snd_bf: "snd ?bf \<longleftrightarrow> ?w"
    by (simp add: bf)
  have same_doc: "doc_id d = doc_id u" "name d = name u" "email d = email u" "role d = role u"
    by (simp_all add: d)
  have call: "generateToken_call C (doc_id d) =
                Sign (JObj [(''id'', doc_id u)]) (jwt_secret C)
                  (JObj [(''expiresIn'', jwt_expiresIn C)])"
    by (simp add: generateToken_call_def token_payload_def token_options_def same_doc)
  have fresh: "\<forall>x. Save x \<notin> set ?cs"
    by simp
  have only: "\<forall>x. Save x \<in> set (snd (snd (register C s body))) \<longrightarrow> x = d"
  proof (intro allI impI)
    fix x
    assume "Save x \<in> set (snd (snd (register C s body)))"
    then have "x = fst ?bf"
      unfolding run by (rule register_recognized_saves) (rule fresh)
    then show "x = d"
      by (simp only: fst_bf)
  qed
  have iff: "(\<exists>x. Save x \<in> set (snd (snd (register C s body)))) \<longleftrightarrow> ?w"
    unfolding run using register_recognized_save_iff [OF fresh, of C s body u] snd_bf by simp
  have ph: "phone d \<noteq> phone u \<longleftrightarrow> truthy (field body ''phone'') \<and> \<not> truthy (phone u)"
    by (auto simp: d)
  have ag: "age d \<noteq> age u \<longleftrightarrow> truthy (field body ''age'') \<and> \<not> truthy (age u)"
    by (auto simp: d)
  have ge: "gender d \<noteq> gender u \<longleftrightarrow> truthy (field body ''gender'') \<and> \<not> truthy (gender u)"
    by (auto simp: d)
  have resp: "\<forall>st b. fst (register C s body) = Respond st b \<longrightarrow>
            get_prop (get_prop (get_prop b ''data'') ''user'') ''phone'' = phone d"
    unfolding run using fst_bf
    by (auto simp: register_recognized_def Let_def auth_body_def user_view_def field_def
             split: prod.splits sum.splits if_splits)
  have written: "?w \<longrightarrow>
            (\<forall>s'. save C s d = Inr s' \<longrightarrow>
               fst (snd (register C s body)) = s' \<and>
               snd (snd (register C s body)) =
                 [FindOne (field body ''email''), ComparePassword u (field body ''password''),
                  Save d,
                  Sign (JObj [(''id'', doc_id u)]) (jwt_secret C)
                    (JObj [(''expiresIn'', jwt_expiresIn C)])]) \<and>
            (\<forall>e. save C s d = Inl e \<longrightarrow>
               register C s body =
                 (Next e, s,
                  [FindOne (field body ''email''), ComparePassword u (field body ''password''),
                   Save d]))"
  proof (intro impI conjI allI)
    fix s'
    assume w: ?w and ok: "save C s d = Inr s'"
    from bf w have "?bf = (d, True)" by simp
    from register_recognized_saved [OF this ok, of ?cs]
    show "fst (snd (register C s body)) = s'"
      and "snd (snd (register C s body)) =
                 [FindOne (field body ''email''), ComparePassword u (field body ''password''),
                  Save d,
                  Sign (JObj [(''id'', doc_id u)]) (jwt_secret C)
                    (JObj [(''expiresIn'', jwt_expiresIn C)])]"
      unfolding run by (simp_all add: call)
  next
    fix e
    assume w: ?w and failed: "save C s d = Inl e"
    from bf w have "?bf = (d, True)" by simp
    from register_recognized_save_failed [OF this failed, of ?cs]
    show "register C s body =
                 (Next e, s,
                  [FindOne (field body ''email''), ComparePassword u (field body ''password''),
                   Save d])"
      unfolding run by simp
  qed
  have untouched: "\<not> ?w \<longrightarrow>
            d = u \<and> fst (snd (register C s body)) = s \<and>
            snd (snd (register C s body)) =
              [FindOne (field body ''email''), ComparePassword u (field body ''password''),
               Sign (JObj [(''id'', doc_id u)]) (jwt_secret C)
                 (JObj [(''expiresIn'', jwt_expiresIn C)])]"
  proof (intro impI)
    assume nw: "\<not> ?w"
    from bf nw have none: "?bf = (d, False)" by simp
    from backfill_changed [of u "field body ''phone''" "field body ''age''" "field body ''gender''"]
    have "d = u" by (simp add: none)
    with register_recognized_unchanged [OF none, of C s ?cs]
    show "d = u \<and> fst (snd (register C s body)) = s \<and>
            snd (snd (register C s body)) =
              [FindOne (field body ''email''), ComparePassword u (field body ''password''),
               Sign (JObj [(''id'', doc_id u)]) (jwt_secret C)
                 (JObj [(''expiresIn'', jwt_expiresIn C)])]"
      unfolding run using call by simp
  qed
  have answers: "\<forall>token.
            sign C (JObj [(''id'', doc_id u)]) (jwt_secret C)
              (JObj [(''expiresIn'', jwt_expiresIn C)]) = Inr token \<longrightarrow>
            (?w \<longrightarrow> (\<exists>s'. save C s d = Inr s')) \<longrightarrow>
            fst (register C s body) =
              Respond 200 (JObj
                [(''success'', JBool True),
                 (''message'', JStr ''Existing patient recognized. Logged in successfully.''),
                 (''data'', JObj
                    [(''user'', JObj
                       [(''id'', doc_id u), (''name'', name u), (''email'', email u),
                        (''role'', role u), (''phone'', phone d)]),
                     (''token'', token)])])"
  proof (intro allI impI)
    fix token
    assume signed: "sign C (JObj [(''id'', doc_id u)]) (jwt_secret C)
              (JObj [(''expiresIn'', jwt_expiresIn C)]) = Inr token"
      and saved: "?w \<longrightarrow> (\<exists>s'. save C s d = Inr s')"
    from signed have tok: "generateToken C (doc_id d) = Inr token"
      by (simp add: generateToken_def token_payload_def token_options_def same_doc)
    from register_recognized_answers [OF bf saved tok, of ?cs]
    show "fst (register C s body) =
              Respond 200 (JObj
                [(''success'', JBool True),
                 (''message'', JStr ''Existing patient recognized. Logged in successfully.''),
                 (''data'', JObj
                    [(''user'', JObj
                       [(''id'', doc_id u), (''name'', name u), (''email'', email u),
                        (''role'', role u), (''phone'', phone d)]),
                     (''token'', token)])])"
      unfolding run by (simp add: auth_body_def user_view_def same_doc)
  qed
  from only iff ph ag ge resp written untouched answers show ?thesis
    by (intro conjI)
qed

theorem backfill_iff_truthy_request_falsy_record_witness:
  "Save (alice\<lparr>age := JNum 41\<rparr>) \<in> set (snd (snd (register mem_collab [alice] alice_blank))) \<and>
   fst (snd (register mem_collab [alice] alice_blank)) = [alice\<lparr>age := JNum 41\<rparr>] \<and>
   age alice = JNum 0 \<and> field alice_blank ''age'' = JNum 41 \<and>
   age (alice\<lparr>age := JNum 41\<rparr>) \<noteq> age alice \<and>
   gender alice = JUndefined \<and> field alice_blank ''gender'' = JStr [] \<and>
   gender (alice\<lparr>age := JNum 41\<rparr>) = gender alice \<and>
   phone alice = JStr ''555'' \<and> field alice_blank ''phone'' = JStr ''999'' \<and>
   phone (alice\<lparr>age := JNum 41\<rparr>) = phone alice"
proof -
  have found: "findOne mem_collab [alice] (field alice_blank ''email'') = Inr (Some alice)"
    by (simp add: alice_blank_fields mem_findOne_alice)
  have given: "truthy (field alice_blank ''password'')"
    by (simp add: alice_blank_fields)
  have same: "comparePassword mem_collab alice (field alice_blank ''password'') = Inr True"
    by (simp add: alice_blank_fields mem_compare_alice)
  have d: "alice\<lparr>age := JNum 41\<rparr> =
           alice\<lparr>phone := (if truthy (field alice_blank ''phone'') \<and> \<not> truthy (phone alice)
                            then field alice_blank ''phone'' else phone alice),
                  age := (if truthy (field alice_blank ''age'') \<and> \<not> truthy (age alice)
                          then field alice_blank ''age'' else age alice),
                  gender := (if truthy (field alice_blank ''gender'') \<and> \<not> truthy (gender alice)
                             then field alice_blank ''gender'' else gender alice)\<rparr>"
    by (simp add: alice_blank_fields alice_def)
  have saved: "save mem_collab [alice] (alice\<lparr>age := JNum 41\<rparr>) = Inr [alice\<lparr>age := JNum 41\<rparr>]"
    by (rule mem_save_alice) (simp add: alice_fields)
  note all = backfill_iff_truthy_request_falsy_record [OF found given same d]
  have wanted: "truthy (field alice_blank ''age'') \<and> \<not> truthy (age alice)"
    by (simp add: alice_blank_fields alice_fields)
  from all [THEN conjunct1] all [THEN conjunct2, THEN conjunct1] wanted
  have only: "Save (alice\<lparr>age := JNum 41\<rparr>)
                \<in> set (snd (snd (register mem_collab [alice] alice_blank)))"
    by blast
  from all [THEN conjunct2, THEN conjunct2, THEN conjunct2, THEN conjunct1] wanted
  have ag: "age (alice\<lparr>age := JNum 41\<rparr>) \<noteq> age alice"
    by blast
  from all [THEN conjunct2, THEN conjunct2, THEN conjunct2, THEN conjunct2, THEN conjunct2,
            THEN conjunct2, THEN conjunct1] wanted saved
  have store: "fst (snd (register mem_collab [alice] alice_blank)) = [alice\<lparr>age := JNum 41\<rparr>]"
    by blast
  from only store ag show ?thesis
    by (simp add: alice_blank_fields alice_fields)
qed

section \<open>The current user\<close>

text \<open>
  C7 (what the code does). When \<^verbatim>\<open>User.findById\<close> resolves to \<^verbatim>\<open>null\<close>,
  \<^verbatim>\<open>getMe\<close> forwards the \<^verbatim>\<open>TypeError\<close> of reading \<^verbatim>\<open>_id\<close> of \<^verbatim>\<open>null\<close>; what it
  forwards is no \<^verbatim>\<open>AppError\<close>, so it carries no status code and no not-found
  message.
\<close>

theorem getMe_unresolved_id:
  assumes "findById C s uid = Inr None"
  shows "getMe C s uid =
           (Next (TypeError ''Cannot read properties of null (reading _id)''), s, [FindById uid]) \<and>
         (\<forall>m c. fst (getMe C s uid) \<noteq> Next (AppError m c))"
  using assms by (simp add: getMe_def)

theorem getMe_unresolved_id_witness:
  "getMe mem_collab [alice] (JNum 7) =
     (Next (TypeError ''Cannot read properties of null (reading _id)''), [alice],
      [FindById (JNum 7)]) \<and>
   fst (getMe mem_collab [alice] (JNum 7)) \<noteq> Next (AppError ''Not found'' 404)"
proof -
  have gone: "findById mem_collab [alice] (JNum 7) = Inr None"
    by (rule mem_findById_alice)
  from getMe_unresolved_id [OF gone] show ?thesis by simp
qed

section \<open>Tokens and user objects\<close>




text \<open>
  C9. Whenever \<^verbatim>\<open>register\<close>, \<^verbatim>\<open>login\<close> or \<^verbatim>\<open>getMe\<close> answers, the user object of
  the body is the projection of the document found, backfilled or created onto id, name,
  email, role and phone (for \<^verbatim>\<open>getMe\<close>: id, name, email, role and createdAt); it has
  exactly these keys, and \<^verbatim>\<open>password\<close> is not among them. The body has the keys
  success, message and data (for \<^verbatim>\<open>getMe\<close>: success and data), and data has the keys
  user and token (for \<^verbatim>\<open>getMe\<close>: user).
\<close>

theorem responses_omit_password:
  "(fst (register C s body) = Respond st b \<longrightarrow>
      keys b = [''success'', ''message'', ''data''] \<and>
      keys (get_prop b ''data'') = [''user'', ''token''] \<and>
      keys (get_prop (get_prop b ''data'') ''user'') =
        [''id'', ''name'', ''email'', ''role'', ''phone''] \<and>
      ''password'' \<notin> set (keys (get_prop (get_prop b ''data'') ''user'')) \<and>
      (\<exists>u. get_prop (get_prop b ''data'') ''user'' =
             JObj [(''id'', doc_id u), (''name'', name u), (''email'', email u),
                   (''role'', role u), (''phone'', phone u)] \<and>
           ((\<exists>found. findOne C s (field body ''email'') = Inr (Some found) \<and>
                u = fst (backfill found (field body ''phone'') (field body ''age'')
                           (field body ''gender''))) \<or>
            (\<exists>s'. create C s (create_fields body) = Inr (u, s'))))) \<and>
   (fst (login C s body) = Respond st b \<longrightarrow>
      keys b = [''success'', ''message'', ''data''] \<and>
      keys (get_prop b ''data'') = [''user'', ''token''] \<and>
      keys (get_prop (get_prop b ''data'') ''user'') =
        [''id'', ''name'', ''email'', ''role'', ''phone''] \<and>
      ''password'' \<notin> set (keys (get_prop (get_prop b ''data'') ''user'')) \<and>
      (\<exists>u. get_prop (get_prop b ''data'') ''user'' =
             JObj [(''id'', doc_id u), (''name'', name u), (''email'', email u),
                   (''role'', role u), (''phone'', phone u)] \<and>
           findOne C s (field body ''email'') = Inr (Some u))) \<and>
   (fst (getMe C s uid) = Respond st b \<longrightarrow>
      keys b = [''success'', ''data''] \<and>
      keys (get_prop b ''data'') = [''user''] \<and>
      keys (get_prop (get_prop b ''data'') ''user'') =
        [''id'', ''name'', ''email'', ''role'', ''createdAt''] \<and>
      ''password'' \<notin> set (keys (get_prop (get_prop b ''data'') ''user'')) \<and>
      (\<exists>u. get_prop (get_prop b ''data'') ''user'' =
             JObj [(''id'', doc_id u), (''name'', name u), (''email'', email u),
                   (''role'', role u), (''createdAt'', createdAt u)] \<and>
           findById C s uid = Inr (Some u)))"
proof -
  have shape: "keys (auth_body msg u token) = [''success'', ''message'', ''data''] \<and>
      keys (get_prop (auth_body msg u token) ''data'') = [''user'', ''token''] \<and>
      keys (get_prop (get_prop (auth_body msg u token) ''data'') ''user'') =
        [''id'', ''name'', ''email'', ''role'', ''phone''] \<and>
      ''password'' \<notin> set (keys (get_prop (get_prop (auth_body msg u token) ''data'') ''user'')) \<and>
      get_prop (get_prop (auth_body msg u token) ''data'') ''user'' =
             JObj [(''id'', doc_id u), (''name'', name u), (''email'', email u),
                   (''role'', role u), (''phone'', phone u)]" for msg u token
    by (simp add: auth_body_keys auth_body_user user_view_keys) (simp add: user_view_def)
  have reg: "fst (register C s body) = Respond st b \<Longrightarrow>
      \<exists>msg u token. b = auth_body msg u token \<and>
           ((\<exists>found. findOne C s (field body ''email'') = Inr (Some found) \<and>
                u = fst (backfill found (field body ''phone'') (field body ''age'')
                           (field body ''gender''))) \<or>
            (\<exists>s'. create C s (create_fields body) = Inr (u, s')))"
  proof (cases rule: register_paths [where C = C and s = s and body = body])
    case (failed e cs)
    assume "fst (register C s body) = Respond st b"
    with failed show ?thesis by simp
  next
    case (recognized u)
    assume "fst (register C s body) = Respond st b"
    then have "fst (register_recognized C s body u
        [FindOne (field body ''email''), ComparePassword u (field body ''password'')]) = Respond st b"
      by (simp only: recognized)
    from register_recognized_responds [OF this] recognized(1) show ?thesis by blast
  next
    case new
    assume "fst (register C s body) = Respond st b"
    then have "fst (register_new C s body [FindOne (field body ''email'')]) = Respond st b"
      by (simp only: new)
    from register_new_responds [OF this] show ?thesis by blast
  qed
  have log: "fst (login C s body) = Respond st b \<Longrightarrow>
      \<exists>msg u token. b = auth_body msg u token \<and>
         findOne C s (field body ''email'') = Inr (Some u)"
    using login_responds [of C s body st b] by blast
  have me: "fst (getMe C s uid) = Respond st b \<Longrightarrow>
      \<exists>u. b = JObj [(''success'', JBool True), (''data'', JObj [(''user'', profile_view u)])] \<and>
         findById C s uid = Inr (Some u)"
    using getMe_responds [of C s uid st b] by blast
  have me_shape: "keys b' = [''success'', ''data''] \<and>
      keys (get_prop b' ''data'') = [''user''] \<and>
      keys (get_prop (get_prop b' ''data'') ''user'') =
        [''id'', ''name'', ''email'', ''role'', ''createdAt''] \<and>
      ''password'' \<notin> set (keys (get_prop (get_prop b' ''data'') ''user'')) \<and>
      get_prop (get_prop b' ''data'') ''user'' =
             JObj [(''id'', doc_id u), (''name'', name u), (''email'', email u),
                   (''role'', role u), (''createdAt'', createdAt u)]"
    if "b' = JObj [(''success'', JBool True), (''data'', JObj [(''user'', profile_view u)])]"
    for b' u
    by (simp add: that field_def profile_view_def)
  show ?thesis
  proof (intro conjI impI)
    assume "fst (register C s body) = Respond st b"
    from reg [OF this] obtain msg u token where b: "b = auth_body msg u token"
      and u: "(\<exists>found. findOne C s (field body ''email'') = Inr (Some found) \<and>
                u = fst (backfill found (field body ''phone'') (field body ''age'')
                           (field body ''gender''))) \<or>
            (\<exists>s'. create C s (create_fields body) = Inr (u, s'))"
      by blast
    from shape [of msg u token] u
    show "keys b = [''success'', ''message'', ''data'']"
      and "keys (get_prop b ''data'') = [''user'', ''token'']"
      and "keys (get_prop (get_prop b ''data'') ''user'') =
             [''id'', ''name'', ''email'', ''role'', ''phone'']"
      and "''password'' \<notin> set (keys (get_prop (get_prop b ''data'') ''user''))"
      and "\<exists>u. get_prop (get_prop b ''data'') ''user'' =
             JObj [(''id'', doc_id u), (''name'', name u), (''email'', email u),
                   (''role'', role u), (''phone'', phone u)] \<and>
           ((\<exists>found. findOne C s (field body ''email'') = Inr (Some found) \<and>
                u = fst (backfill found (field body ''phone'') (field body ''age'')
                           (field body ''gender''))) \<or>
            (\<exists>s'. create C s (create_fields body) = Inr (u, s')))"
      unfolding b by blast+
  next
    assume "fst (login C s body) = Respond st b"
    from log [OF this] obtain msg u token where b: "b = auth_body msg u token"
      and u: "findOne C s (field body ''email'') = Inr (Some u)"
      by blast
    from shape [of msg u token] u
    show "keys b = [''success'', ''message'', ''data'']"
      and "keys (get_prop b ''data'') = [''user'', ''token'']"
      and "keys (get_prop (get_prop b ''data'') ''user'') =
             [''id'', ''name'', ''email'', ''role'', ''phone'']"
      and "''password'' \<notin> set (keys (get_prop (get_prop b ''data'') ''user''))"
      and "\<exists>u. get_prop (get_prop b ''data'') ''user'' =
             JObj [(''id'', doc_id u), (''name'', name u), (''email'', email u),
                   (''role'', role u), (''phone'', phone u)] \<and>
           findOne C s (field body ''email'') = Inr (Some u)"
      unfolding b by blast+
  next
    assume "fst (getMe C s uid) = Respond st b"
    from me [OF this] obtain u where
      b: "b = JObj [(''success'', JBool True), (''data'', JObj [(''user'', profile_view u)])]"
      and u: "findById C s uid = Inr (Some u)"
      by blast
    from me_shape [OF b] u
    show "keys b = [''success'', ''data'']"
      and "keys (get_prop b ''data'') = [''user'']"
      and "keys (get_prop (get_prop b ''data'') ''user'') =
             [''id'', ''name'', ''email'', ''role'', ''createdAt'']"
      and "''password'' \<notin> set (keys (get_prop (get_prop b ''data'') ''user''))"
      and "\<exists>u. get_prop (get_prop b ''data'') ''user'' =
             JObj [(''id'', doc_id u), (''name'', name u), (''email'', email u),
                   (''role'', role u), (''createdAt'', createdAt u)] \<and>
           findById C s uid = Inr (Some u)"
      by blast+
  qed
qed

theorem responses_omit_password_witness:
  "fst (login mem_collab [alice] alice_login) =
     Respond 200 (auth_body ''Login successful'' alice (JStr ''signed-token'')) \<and>
   password alice = JStr ''hash:pw1'' \<and>
   keys (get_prop (get_prop (auth_body ''Login successful'' alice (JStr ''signed-token''))
           ''data'') ''user'') = [''id'', ''name'', ''email'', ''role'', ''phone''] \<and>
   ''password'' \<notin> set (keys (get_prop (get_prop
       (auth_body ''Login successful'' alice (JStr ''signed-token'')) ''data'') ''user''))"
proof -
  let ?b = "auth_body ''Login successful'' alice (JStr ''signed-token'')"
  have answered: "fst (login mem_collab [alice] alice_login) = Respond 200 ?b"
    by (simp add: login_alice)
  from responses_omit_password [where C = mem_collab and s = "[alice]" and body = alice_login
      and st = 200 and b = ?b and uid = JNull] answered
  have "keys (get_prop (get_prop ?b ''data'') ''user'') =
          [''id'', ''name'', ''email'', ''role'', ''phone''] \<and>
        ''password'' \<notin> set (keys (get_prop (get_prop ?b ''data'') ''user''))"
    by blast
  with answered show ?thesis
    by (simp add: alice_fields)
qed

end
